theory Spec2Isabelle
  imports Complex_Main "HOL-Library.Sublist"
begin

section \<open>Strings as the Python code uses them\<close>

text \<open>
  Messages, keywords and product texts are Python \<open>str\<close> values, modelled as \<open>string\<close>
  (lists of 8-bit characters). The model covers ASCII text: \<open>lower\<close> maps \<open>A..Z\<close> to
  \<open>a..z\<close> and leaves every other character alone, and \<open>\d\<close> matches \<open>0..9\<close> only.
\<close>

definition lower_char :: "char \<Rightarrow> char" where
  "lower_char c =
     (let n = (of_char c :: nat) in if 65 \<le> n \<and> n \<le> 90 then char_of (n + 32) else c)"

text \<open>\<open>s.lower()\<close>\<close>

definition lower :: "string \<Rightarrow> string" where
  "lower s = map lower_char s"

text \<open>\<open>sub in s\<close> on strings: \<open>sub\<close> occurs in \<open>s\<close> as a contiguous run of characters.\<close>

definition str_in :: "string \<Rightarrow> string \<Rightarrow> bool" where
  "str_in sub s = sublist sub s"

text \<open>\<open>sep.join(xs)\<close>\<close>

fun join :: "string \<Rightarrow> string list \<Rightarrow> string" where
  "join sep [] = []"
| "join sep [x] = x"
| "join sep (x # y # ys) = x @ sep @ join sep (y # ys)"

text \<open>\<open>str(n)\<close> for a non-negative integer, as the f-strings print the counters.\<close>

definition digit_char :: "nat \<Rightarrow> char" where
  "digit_char d = char_of (48 + d)"

fun str_nat :: "nat \<Rightarrow> string" where
  "str_nat n = (if n < 10 then [digit_char n] else str_nat (n div 10) @ [digit_char (n mod 10)])"

subsection \<open>The budget regular expressions\<close>

text \<open>
  Every pattern of the source has the shape \<open>kw \$?(\d+)\<close> (a literal keyword followed by
  a blank, an optional dollar sign, one or more digits) or \<open>\$(\d+)\<close>. \<open>re.search\<close>
  returns the leftmost match; group 1 is the maximal run of digits there.
\<close>

definition is_digit :: "char \<Rightarrow> bool" where
  "is_digit c = (let n = (of_char c :: nat) in 48 \<le> n \<and> n \<le> 57)"

text \<open>\<open>(\d+)\<close> anchored at the start of the text.\<close>

definition match_digits :: "string \<Rightarrow> string option" where
  "match_digits s = (let d = takeWhile is_digit s in if d = [] then None else Some d)"

text \<open>\<open>\$?(\d+)\<close> anchored at the start of the text.\<close>

definition match_opt_dollar_digits :: "string \<Rightarrow> string option" where
  "match_opt_dollar_digits s =
     (case s of
        [] \<Rightarrow> None
      | c # cs \<Rightarrow> if c = CHR ''$'' then match_digits cs else match_digits (c # cs))"

datatype pattern = KwAmount string | DollarAmount

text \<open>A pattern anchored at the start of the text; the result is group 1.\<close>

fun match_here :: "pattern \<Rightarrow> string \<Rightarrow> string option" where
  "match_here (KwAmount kw) s =
     (if prefix kw s then match_opt_dollar_digits (drop (length kw) s) else None)"
| "match_here DollarAmount s =
     (case s of
        [] \<Rightarrow> None
      | c # cs \<Rightarrow> if c = CHR ''$'' then match_digits cs else None)"

text \<open>\<open>re.search(pattern, s)\<close>: try every start position from the left.\<close>

fun re_search :: "pattern \<Rightarrow> string \<Rightarrow> string option" where
  "re_search p [] = match_here p []"
| "re_search p (c # cs) =
     (case match_here p (c # cs) of Some g \<Rightarrow> Some g | None \<Rightarrow> re_search p cs)"

text \<open>\<open>float(match.group(1))\<close> on a run of decimal digits.\<close>

definition digit_val :: "char \<Rightarrow> nat" where
  "digit_val c = of_char c - 48"

definition float_of_digits :: "string \<Rightarrow> real" where
  "float_of_digits ds = real (foldl (\<lambda>acc c. 10 * acc + digit_val c) 0 ds)"

section \<open>Data model\<close>

text \<open>
  A budget hint. The source carries it as the string \<open>f"under ${price}"\<close> or
  \<open>f"around ${price}"\<close> and parses the number back with \<open>float\<close>; the model keeps the
  parsed value. \<open>Unusable\<close> is a stored string that is neither (or whose number does not
  parse): the scoring code leaves the budget score at 100 for it. Prices and scores are
  Python floats, modelled as exact reals.
\<close>

datatype budget_hint = UnderAmount real | AroundAmount real | Unusable

text \<open>One entry of the list \<open>get_personalized_recommendations\<close> returns (without its reasons).\<close>

record recommendation =
  product_id :: string
  name :: string
  category :: string
  description :: string
  price :: real
  dietary_tags :: "string list option"
  mood_tags :: "string list option"
  spice_level :: "int option"
  popularity_score :: "int option"
  recommendation_score :: real

text \<open>The dictionary \<open>process_message\<close> returns (without the generated reply text).\<close>

record response =
  conversation_id :: string
  interest_score :: int
  interest_score_change :: int
  engagement_factors :: "string list"
  recommendations :: "recommendation list"

text \<open>
  A \<open>Conversation\<close> object: the columns \<open>models.py\<close> declares that the code reads (the
  JSON columns may be NULL), and \<open>instance_dict\<close>, the attributes set on the Python
  object that are not columns. The class declares \<open>current_interest_score\<close>; it has no
  attribute \<open>interest_score\<close>.
\<close>

record conversation =
  conversation_id :: string
  user_preferences :: "string list option"
  dietary_restrictions :: "string list option"
  budget_range :: "budget_hint option"
  mood_tags :: "string list option"
  current_interest_score :: real
  instance_dict :: "(string \<times> int) list"

text \<open>
  A row of the product table. The JSON columns and the integer columns may be NULL
  (\<open>None\<close>), which the code guards with \<open>x or default\<close>; name, category, description
  and price are read unguarded and are taken to be present.
\<close>

record product =
  product_id :: string
  name :: string
  category :: string
  description :: string
  ingredients :: "string list option"
  price :: real
  dietary_tags :: "string list option"
  mood_tags :: "string list option"
  allergens :: "string list option"
  popularity_score :: "int option"
  chef_special :: bool
  limited_time :: bool
  spice_level :: "int option"

section \<open>The conversation service\<close>

definition ENGAGEMENT_FACTORS :: "(string \<times> int) list" where
  "ENGAGEMENT_FACTORS =
     [(''specific_preferences'', 15), (''dietary_restrictions'', 10), (''budget_mention'', 5),
      (''mood_indication'', 20), (''question_asking'', 10), (''enthusiasm_words'', 8),
      (''price_inquiry'', 25), (''order_intent'', 30)]"

definition NEGATIVE_FACTORS :: "(string \<times> int) list" where
  "NEGATIVE_FACTORS =
     [(''hesitation'', -10), (''budget_concern'', -15), (''dietary_conflict'', -20),
      (''rejection'', -25), (''delay_response'', -5)]"

text \<open>\<open>d[key]\<close> on the two weight tables; every key the code uses is present.\<close>

definition weight :: "(string \<times> int) list \<Rightarrow> string \<Rightarrow> int" where
  "weight d k = (case map_of d k of Some v \<Rightarrow> v | None \<Rightarrow> 0)"

definition specific_preference_keywords :: "string list" where
  "specific_preference_keywords =
     [''spicy'', ''mild'', ''hot'', ''korean'', ''mexican'', ''italian'', ''chinese'',
      ''burger'', ''pizza'', ''taco'', ''salad'', ''chicken'', ''beef'', ''vegetarian'',
      ''vegan'', ''crispy'', ''juicy'', ''creamy'', ''crunchy'', ''sweet'', ''salty'']"

definition dietary_keywords :: "string list" where
  "dietary_keywords =
     [''vegetarian'', ''vegan'', ''gluten-free'', ''dairy-free'', ''keto'', ''low-carb'',
      ''halal'', ''kosher'', ''allergic'', ''allergy'', ''no dairy'', ''no gluten'']"

definition mood_keywords :: "string list" where
  "mood_keywords =
     [''adventurous'', ''comfort'', ''healthy'', ''indulgent'', ''quick'', ''fancy'',
      ''feeling'', ''mood'', ''craving'', ''want something'', ''in the mood for'']"

definition enthusiasm_keywords :: "string list" where
  "enthusiasm_keywords =
     [''amazing'', ''perfect'', ''love'', ''awesome'', ''fantastic'', ''great'',
      ''excellent'', ''wonderful'', ''delicious'', ''yummy'', ''sounds good'']"

definition hesitation_keywords :: "string list" where
  "hesitation_keywords =
     [''maybe'', ''not sure'', ''uncertain'', ''hmm'', ''i think'', ''perhaps'',
      ''possibly'', ''might'', ''could be'', ''not really sure'']"

definition budget_concern_keywords :: "string list" where
  "budget_concern_keywords =
     [''too expensive'', ''too much'', ''costly'', ''pricey'', ''expensive'',
      ''cheap'', ''affordable'', ''budget'', ''money'']"

definition question_keywords :: "string list" where
  "question_keywords =
     [''what'', ''how'', ''when'', ''where'', ''why'', ''which'', ''can you'',
      ''do you have'', ''is it'', ''does it'', ''spice level'', ''ingredients'']"

definition order_intent_keywords :: "string list" where
  "order_intent_keywords =
     [''i'' @ [CHR 0x27] @ ''ll take'', ''add to cart'', ''order'', ''get me'', ''i want that'',
      ''sounds perfect'', ''i'' @ [CHR 0x27] @ ''ll have'', ''give me'',
      ''let'' @ [CHR 0x27] @ ''s go with'']"

definition budget_patterns :: "pattern list" where
  "budget_patterns =
     [KwAmount ''under '', KwAmount ''below '', KwAmount ''less than '',
      KwAmount ''around '', KwAmount ''about '', DollarAmount]"

definition price_inquiry_patterns :: "string list" where
  "price_inquiry_patterns =
     [''how much'', ''what does it cost'', ''price'', ''cost'', ''expensive'',
      ''how much is'', ''what'' @ [CHR 0x27] @ ''s the price'']"

definition rejection_patterns :: "string list" where
  "rejection_patterns =
     [''i don'' @ [CHR 0x27] @ ''t like'', ''not interested'', ''no thanks'',
      ''don'' @ [CHR 0x27] @ ''t want'', ''hate'', ''dislike'', ''not for me'', ''pass'']"

text \<open>The loops \<open>for keyword in kws: if keyword in message_lower: ...\<close>.\<close>

definition count_found :: "string list \<Rightarrow> string \<Rightarrow> nat" where
  "count_found kws m = length (filter (\<lambda>k. str_in k m) kws)"

definition any_found :: "string list \<Rightarrow> string \<Rightarrow> bool" where
  "any_found kws m = list_ex (\<lambda>k. str_in k m) kws"

text \<open>The detection tests of \<open>_calculate_interest_score_change\<close>, one per factor.\<close>

definition specific_prefs_found :: "string \<Rightarrow> nat" where
  "specific_prefs_found message = count_found specific_preference_keywords (lower message)"

definition dietary_found :: "string \<Rightarrow> bool" where
  "dietary_found message = any_found dietary_keywords (lower message)"

definition budget_mentioned :: "string \<Rightarrow> bool" where
  "budget_mentioned message = list_ex (\<lambda>p. re_search p (lower message) \<noteq> None) budget_patterns"

definition mood_found :: "string \<Rightarrow> bool" where
  "mood_found message = any_found mood_keywords (lower message)"

definition question_found :: "string \<Rightarrow> bool" where
  "question_found message = (any_found question_keywords (lower message) \<or> str_in ''?'' message)"

definition enthusiasm_found :: "string \<Rightarrow> nat" where
  "enthusiasm_found message = count_found enthusiasm_keywords (lower message)"

definition price_inquiry :: "string \<Rightarrow> bool" where
  "price_inquiry message = any_found price_inquiry_patterns (lower message)"

definition order_intent :: "string \<Rightarrow> bool" where
  "order_intent message = any_found order_intent_keywords (lower message)"

definition hesitation_found :: "string \<Rightarrow> bool" where
  "hesitation_found message = any_found hesitation_keywords (lower message)"

definition budget_concern :: "string \<Rightarrow> bool" where
  "budget_concern message =
     list_ex (\<lambda>k. str_in k (lower message) \<and>
                   (str_in ''too'' (lower message) \<or> str_in ''expensive'' (lower message)))
       budget_concern_keywords"

definition rejection_found :: "string \<Rightarrow> bool" where
  "rejection_found message = any_found rejection_patterns (lower message)"

text \<open>
  One \<open>if found: score_change += w; engagement_factors.append(text)\<close> step on the pair
  \<open>(score_change, engagement_factors)\<close>.
\<close>

definition bump :: "bool \<Rightarrow> int \<Rightarrow> string \<Rightarrow> int \<times> string list \<Rightarrow> int \<times> string list" where
  "bump found w txt acc = (if found then (fst acc + w, snd acc @ [txt]) else acc)"

definition calculate_interest_score_change :: "string \<Rightarrow> int \<times> string list" where
  "calculate_interest_score_change message =
     (bump (rejection_found message) (weight NEGATIVE_FACTORS ''rejection'')
        ''Rejection detected (-25)''
     (bump (budget_concern message) (weight NEGATIVE_FACTORS ''budget_concern'')
        ''Budget concern detected (-15)''
     (bump (hesitation_found message) (weight NEGATIVE_FACTORS ''hesitation'')
        ''Hesitation detected (-10)''
     (bump (order_intent message) (weight ENGAGEMENT_FACTORS ''order_intent'')
        ''Order intent detected''
     (bump (price_inquiry message) (weight ENGAGEMENT_FACTORS ''price_inquiry'')
        ''Price inquiry detected''
     (bump (enthusiasm_found message > 0) (weight ENGAGEMENT_FACTORS ''enthusiasm_words'')
        (''Enthusiasm detected ('' @ str_nat (enthusiasm_found message) @ '' positive words)'')
     (bump (question_found message) (weight ENGAGEMENT_FACTORS ''question_asking'')
        ''Question asked''
     (bump (mood_found message) (weight ENGAGEMENT_FACTORS ''mood_indication'')
        ''Mood/feeling indicated''
     (bump (budget_mentioned message) (weight ENGAGEMENT_FACTORS ''budget_mention'')
        ''Budget mentioned''
     (bump (dietary_found message) (weight ENGAGEMENT_FACTORS ''dietary_restrictions'')
        ''Dietary restrictions mentioned''
     (bump (specific_prefs_found message > 0) (weight ENGAGEMENT_FACTORS ''specific_preferences'')
        (''Specific preferences mentioned ('' @ str_nat (specific_prefs_found message)
           @ '' detected)'')
     (0, []))))))))))))"

text \<open>\<open>_extract_preferences\<close>: the keyword lists are scanned in their order.\<close>

definition mood_map :: "(string \<times> string list) list" where
  "mood_map =
     [(''adventurous'', [''adventurous'', ''adventure'', ''try something new'']),
      (''comfort'', [''comfort'', ''cozy'', ''familiar'']),
      (''healthy'', [''healthy'', ''light'', ''fresh'']),
      (''indulgent'', [''indulgent'', ''rich'', ''treat myself'']),
      (''quick'', [''quick'', ''fast'', ''hurry'']),
      (''fancy'', [''fancy'', ''special'', ''gourmet''])]"

text \<open>
  \<open>for label, keywords in d.items(): for keyword in keywords: if keyword in text:
  out.append(label); break\<close>
\<close>

definition detect_labels :: "(string \<times> string list) list \<Rightarrow> string \<Rightarrow> string list" where
  "detect_labels d m = map fst (filter (\<lambda>entry. any_found (snd entry) m) d)"

record preferences =
  specific_prefs :: "string list"
  dietary :: "string list"
  moods :: "string list"

definition extract_preferences :: "string \<Rightarrow> preferences" where
  "extract_preferences message =
     \<lparr>specific_prefs = filter (\<lambda>k. str_in k (lower message)) specific_preference_keywords,
      dietary = filter (\<lambda>k. str_in k (lower message)) dietary_keywords,
      moods = detect_labels mood_map (lower message)\<rparr>"

text \<open>\<open>for x in new: if x not in old: old.append(x)\<close>\<close>

fun merge_into :: "string list \<Rightarrow> string list \<Rightarrow> string list" where
  "merge_into old [] = old"
| "merge_into old (x # xs) = merge_into (if x \<in> set old then old else old @ [x]) xs"

section \<open>The recommendation engine\<close>

text \<open>\<open>x or []\<close> on a JSON list column.\<close>

definition or_empty :: "'a list option \<Rightarrow> 'a list" where
  "or_empty x = (case x of None \<Rightarrow> [] | Some xs \<Rightarrow> xs)"

text \<open>\<open>d.get(key, [])\<close>\<close>

definition dict_get :: "(string \<times> string list) list \<Rightarrow> string \<Rightarrow> string list" where
  "dict_get d k = (case map_of d k of None \<Rightarrow> [] | Some v \<Rightarrow> v)"

definition category_keywords :: "(string \<times> string list) list" where
  "category_keywords =
     [(''burgers'', [''burger'', ''hamburger'', ''cheeseburger'', ''beef burger'', ''chicken burger'']),
      (''pizza'', [''pizza'', ''margherita'', ''pepperoni'', ''cheese pizza'']),
      (''tacos'', [''taco'', ''burrito'', ''quesadilla'', ''mexican'']),
      (''desserts'', [''dessert'', ''cake'', ''ice cream'', ''cookie'', ''sweet'', ''chocolate'', ''pie'']),
      (''salads'', [''salad'', ''caesar'', ''garden'', ''healthy'', ''greens'']),
      (''drinks'', [''drink'', ''beverage'', ''soda'', ''juice'', ''coffee'', ''tea'']),
      (''sandwiches'', [''sandwich'', ''sub'', ''wrap'', ''panini'']),
      (''pasta'', [''pasta'', ''spaghetti'', ''fettuccine'', ''lasagna'', ''ravioli'']),
      (''chicken'', [''chicken'', ''wings'', ''nuggets'', ''fried chicken'']),
      (''seafood'', [''fish'', ''shrimp'', ''salmon'', ''seafood'', ''lobster''])]"

definition dietary_exclusions :: "(string \<times> string list) list" where
  "dietary_exclusions =
     [(''vegetarian'', [''beef'', ''pork'', ''chicken'', ''turkey'', ''fish'', ''seafood'', ''meat'',
                        ''bacon'', ''ham'', ''sausage'']),
      (''vegan'', [''beef'', ''pork'', ''chicken'', ''turkey'', ''fish'', ''seafood'', ''meat'',
                   ''dairy'', ''cheese'', ''milk'', ''butter'', ''cream'', ''egg'', ''honey'']),
      (''gluten-free'', [''wheat'', ''gluten'', ''bread'', ''pasta'', ''flour'', ''barley'', ''rye'']),
      (''dairy-free'', [''milk'', ''cheese'', ''butter'', ''cream'', ''yogurt'', ''dairy'']),
      (''keto'', [''bread'', ''pasta'', ''rice'', ''potato'', ''sugar'', ''flour'']),
      (''low-carb'', [''bread'', ''pasta'', ''rice'', ''potato'', ''sugar'', ''flour'', ''carbs''])]"

definition dietary_detection_keywords :: "(string \<times> string list) list" where
  "dietary_detection_keywords =
     [(''vegetarian'', [''vegetarian'', ''veg'', ''veggie'', ''no meat'', ''plant-based'']),
      (''vegan'', [''vegan'', ''plant-based'', ''no animal products'', ''dairy-free and vegetarian'']),
      (''gluten-free'', [''gluten-free'', ''gluten free'', ''no gluten'', ''celiac'']),
      (''dairy-free'', [''dairy-free'', ''dairy free'', ''no dairy'', ''lactose-free'', ''no milk'']),
      (''keto'', [''keto'', ''ketogenic'', ''low-carb'', ''no carbs'']),
      (''low-carb'', [''low-carb'', ''low carb'', ''no carbs'', ''carb-free''])]"

definition engine_mood_keywords :: "(string \<times> string list) list" where
  "engine_mood_keywords =
     [(''comfort'', [''comfort'', ''cozy'', ''warm'']),
      (''healthy'', [''healthy'', ''light'', ''fresh'', ''clean'']),
      (''indulgent'', [''indulgent'', ''rich'', ''decadent'', ''treat'']),
      (''spicy'', [''spicy'', ''hot'', ''kick'']),
      (''quick'', [''quick'', ''fast'', ''grab'']),
      (''fancy'', [''fancy'', ''special'', ''gourmet''])]"

definition price_patterns :: "pattern list" where
  "price_patterns =
     [KwAmount ''under '', KwAmount ''below '', KwAmount ''less than '',
      KwAmount ''around '', KwAmount ''about '']"

text \<open>
  \<open>'under' in pattern or 'below' in pattern or 'less than' in pattern\<close>, a test on the
  pattern's source text; the part after the keyword, \<open>\$?(\d+)\<close>, holds none of the words.
\<close>

fun is_under_pattern :: "pattern \<Rightarrow> bool" where
  "is_under_pattern (KwAmount kw) =
     (str_in ''under'' kw \<or> str_in ''below'' kw \<or> str_in ''less than'' kw)"
| "is_under_pattern DollarAmount = False"

text \<open>The loop over \<open>price_patterns\<close>: the first pattern of the list that matches decides.\<close>

fun find_budget :: "pattern list \<Rightarrow> string \<Rightarrow> budget_hint option" where
  "find_budget [] m = None"
| "find_budget (p # ps) m =
     (case re_search p m of
        Some g \<Rightarrow>
          Some (if is_under_pattern p then UnderAmount (float_of_digits g)
                else AroundAmount (float_of_digits g))
      | None \<Rightarrow> find_budget ps m)"

record current_preferences =
  categories :: "string list"
  budget :: "budget_hint option"
  dietary :: "string list"
  moods :: "string list"

definition extract_food_preferences_from_message :: "string \<Rightarrow> current_preferences" where
  "extract_food_preferences_from_message message =
     \<lparr>categories = detect_labels category_keywords (lower message),
      budget = find_budget price_patterns (lower message),
      dietary = detect_labels dietary_detection_keywords (lower message),
      moods = detect_labels engine_mood_keywords (lower message)\<rparr>"

subsection \<open>The strict dietary filter\<close>

text \<open>\<open>f"{product.name} {product.description} {' '.join(product.ingredients or [])}".lower()\<close>\<close>

definition product_text :: "product \<Rightarrow> string" where
  "product_text p =
     lower (name p @ '' '' @ description p @ '' '' @ join '' '' (or_empty (ingredients p)))"

definition product_dietary_tags :: "product \<Rightarrow> string list" where
  "product_dietary_tags p = map lower (or_empty (dietary_tags p))"

text \<open>
  The body of the loop over the restrictions, for one restriction: does it set
  \<open>is_suitable = False\<close>?
\<close>

definition restriction_fails :: "product \<Rightarrow> string \<Rightarrow> bool" where
  "restriction_fails p restriction =
     (if lower restriction \<notin> set (product_dietary_tags p) then
        any_found (dict_get dietary_exclusions restriction) (product_text p)
        \<or> (restriction \<in> set [''vegetarian'', ''vegan'']
            \<and> lower restriction \<notin> set (product_dietary_tags p))
      else False)"

text \<open>The loop over the restrictions, left at the first one that fails.\<close>

fun is_suitable :: "product \<Rightarrow> string list \<Rightarrow> bool" where
  "is_suitable p [] = True"
| "is_suitable p (r # rs) = (if restriction_fails p r then False else is_suitable p rs)"

definition strict_dietary_filter :: "product list \<Rightarrow> string list \<Rightarrow> product list" where
  "strict_dietary_filter products restrictions =
     (if restrictions = [] then products
      else filter (\<lambda>p. is_suitable p restrictions) products)"

subsection \<open>Scoring\<close>

definition recommendation_weights :: "(string \<times> real) list" where
  "recommendation_weights =
     [(''current_request_match'', 0.4), (''preference_match'', 0.2), (''mood_match'', 0.15),
      (''dietary_compatibility'', 0.15), (''budget_fit'', 0.05), (''popularity'', 0.05)]"

definition rweight :: "string \<Rightarrow> real" where
  "rweight k = (case map_of recommendation_weights k of Some v \<Rightarrow> v | None \<Rightarrow> 0)"

text \<open>
  \<open>category.lower() in product.category.lower() or
  any(keyword in product.name.lower() for keyword in self.category_keywords.get(category, []))\<close>
\<close>

definition category_match :: "product \<Rightarrow> string \<Rightarrow> bool" where
  "category_match p c =
     (str_in (lower c) (lower (category p))
      \<or> any_found (dict_get category_keywords c) (lower (name p)))"

text \<open>The current-request sub-score before it is clamped to \<open>[0, 100]\<close>.\<close>

definition current_request_raw :: "product \<Rightarrow> current_preferences \<Rightarrow> int" where
  "current_request_raw p cp =
     (if list_ex (category_match p) (categories cp) then 80 else 0)
     + (\<Sum>d \<leftarrow> dietary cp. if lower d \<in> set (product_dietary_tags p) then 50 else - 30)
     + (\<Sum>m \<leftarrow> moods cp. if m \<in> set (or_empty (mood_tags p)) then 15 else 0)"

definition current_request_score :: "product \<Rightarrow> current_preferences \<Rightarrow> int" where
  "current_request_score p cp = max 0 (min (current_request_raw p cp) 100)"

definition preference_matches :: "product \<Rightarrow> conversation \<Rightarrow> nat" where
  "preference_matches p conv =
     length (filter (\<lambda>pref.
                str_in (lower pref) (lower (name p))
              \<or> str_in (lower pref) (lower (description p))
              \<or> pref \<in> set (or_empty (dietary_tags p))
              \<or> pref \<in> set (or_empty (mood_tags p)))
        (or_empty (user_preferences conv)))"

text \<open>\<open>len(set(user_moods) & set(product.mood_tags or []))\<close>\<close>

definition mood_matches :: "product \<Rightarrow> conversation \<Rightarrow> nat" where
  "mood_matches p conv =
     length (remdups (filter (\<lambda>m. m \<in> set (or_empty (mood_tags p)))
                        (or_empty (conversation.mood_tags conv))))"

text \<open>The dietary-compatibility loop: 0 at the first restriction that breaks, else 100.\<close>

fun dietary_score :: "product \<Rightarrow> string list \<Rightarrow> int" where
  "dietary_score p [] = 100"
| "dietary_score p (r # rs) =
     (if r \<in> set (or_empty (allergens p)) then 0
      else if lower r \<notin> set (product_dietary_tags p)
              \<and> any_found (dict_get dietary_exclusions r) (product_text p) then 0
      else dietary_score p rs)"

text \<open>
  The budget-fit block. A hint whose text holds "under" is tried first, then "around";
  any other text, and a number that does not parse, leave the score at 100.
\<close>

definition budget_score :: "budget_hint option \<Rightarrow> real \<Rightarrow> real" where
  "budget_score hint product_price =
     (case hint of
        None \<Rightarrow> 100
      | Some (UnderAmount budget_limit) \<Rightarrow>
          if product_price \<le> budget_limit then 100
          else max 0 (100 - (product_price - budget_limit) * 10)
      | Some (AroundAmount target_price) \<Rightarrow> max 0 (100 - \<bar>product_price - target_price\<bar> * 5)
      | Some Unusable \<Rightarrow> 100)"

text \<open>\<open>current_preferences['budget'] or getattr(conversation, 'budget_range', None)\<close>\<close>

definition active_budget :: "current_preferences \<Rightarrow> conversation \<Rightarrow> budget_hint option" where
  "active_budget cp conv = (case budget cp of Some b \<Rightarrow> Some b | None \<Rightarrow> budget_range conv)"

text \<open>\<open>product.popularity_score or 50\<close>: both NULL and 0 are falsy.\<close>

definition popularity_or_50 :: "product \<Rightarrow> int" where
  "popularity_or_50 p =
     (case popularity_score p of None \<Rightarrow> 50 | Some v \<Rightarrow> if v = 0 then 50 else v)"

text \<open>
  \<open>round(score, 2)\<close>: to the nearest multiple of 0.01, an exact tie going to the even
  multiple.
\<close>

definition round_half_even :: "real \<Rightarrow> int" where
  "round_half_even x =
     (let f = \<lfloor>x\<rfloor>; d = x - of_int f
      in if d < 1 / 2 then f else if 1 / 2 < d then f + 1 else if even f then f else f + 1)"

definition round2 :: "real \<Rightarrow> real" where
  "round2 x = of_int (round_half_even (x * 100)) / 100"

text \<open>\<open>min(preference_matches * 20, 100)\<close> and \<open>min(mood_matches * 30, 100)\<close>\<close>

definition preference_score :: "product \<Rightarrow> conversation \<Rightarrow> int" where
  "preference_score p conv = min (int (preference_matches p conv) * 20) 100"

definition mood_score :: "product \<Rightarrow> conversation \<Rightarrow> int" where
  "mood_score p conv = min (int (mood_matches p conv) * 30) 100"

text \<open>
  The weighted sum, in the order the source adds the terms; the four conversation terms
  are added only when a conversation was found.
\<close>

definition calculate_recommendation_score ::
    "product \<Rightarrow> conversation option \<Rightarrow> current_preferences \<Rightarrow> real" where
  "calculate_recommendation_score p conversation cp =
     round2
       (of_int (current_request_score p cp) * rweight ''current_request_match''
        + (case conversation of
             None \<Rightarrow> 0
           | Some conv \<Rightarrow>
               of_int (preference_score p conv) * rweight ''preference_match''
               + of_int (mood_score p conv) * rweight ''mood_match''
               + of_int (dietary_score p (or_empty (dietary_restrictions conv)))
                   * rweight ''dietary_compatibility''
               + budget_score (active_budget cp conv) (price p) * rweight ''budget_fit'')
        + of_int (popularity_or_50 p) * rweight ''popularity'')"

subsection \<open>The recommendation pipeline\<close>

text \<open>An entry of the working list: \<open>{'product': product, 'score': score, ...}\<close>.\<close>

record candidate =
  product :: product
  score :: real

text \<open>\<open>xs[:limit]\<close>; a negative limit counts from the end.\<close>

definition py_take :: "int \<Rightarrow> 'a list \<Rightarrow> 'a list" where
  "py_take limit xs =
     (if 0 \<le> limit then take (nat limit) xs else take (nat (int (length xs) + limit)) xs)"

text \<open>
  The current dietary labels, then the conversation's restrictions that are not among
  them yet.
\<close>

definition all_dietary_restrictions ::
    "conversation option \<Rightarrow> current_preferences \<Rightarrow> string list" where
  "all_dietary_restrictions conversation cp =
     (case conversation of
        None \<Rightarrow> dietary cp
      | Some conv \<Rightarrow> merge_into (dietary cp) (or_empty (dietary_restrictions conv)))"

definition no_match :: "string list \<Rightarrow> recommendation" where
  "no_match restrictions =
     \<lparr>recommendation.product_id = ''no_match'',
      recommendation.name = ''No suitable products found'',
      recommendation.category = ''Notice'',
      recommendation.description =
        ''Sorry, no products match your '' @ join '', '' restrictions @ '' requirements.'',
      recommendation.price = 0,
      recommendation.dietary_tags = Some restrictions,
      recommendation.mood_tags = Some [],
      recommendation.spice_level = Some 0,
      recommendation.popularity_score = Some 0,
      recommendation_score = 0\<rparr>"

text \<open>STEP 2: keep the products of a mentioned category, unless none is.\<close>

definition matches_a_category :: "current_preferences \<Rightarrow> product \<Rightarrow> bool" where
  "matches_a_category cp p = list_ex (category_match p) (categories cp)"

definition category_filter :: "current_preferences \<Rightarrow> product list \<Rightarrow> product list" where
  "category_filter cp ps =
     (if categories cp \<noteq> [] then
        (let filtered_products = filter (matches_a_category cp) ps
         in if filtered_products \<noteq> [] then filtered_products else ps)
      else ps)"

text \<open>STEP 3: the budget of the current message is a filter on the price.\<close>

definition budget_filter :: "current_preferences \<Rightarrow> product list \<Rightarrow> product list" where
  "budget_filter cp ps =
     (case budget cp of
        None \<Rightarrow> ps
      | Some (UnderAmount max_price) \<Rightarrow> filter (\<lambda>p. price p \<le> max_price) ps
      | Some (AroundAmount target_price) \<Rightarrow>
          filter (\<lambda>p. target_price * 0.8 \<le> price p \<and> price p \<le> target_price * 1.2) ps
      | Some Unusable \<Rightarrow> ps)"

text \<open>
  STEP 4, the body of the loop: the score of one product, with the bonus of 20 when
  dietary restrictions are in force.
\<close>

definition score_product ::
    "conversation option \<Rightarrow> current_preferences \<Rightarrow> string list \<Rightarrow> product \<Rightarrow> candidate" where
  "score_product conversation cp restrictions p =
     \<lparr>product = p,
      score = calculate_recommendation_score p conversation cp
              + (if restrictions \<noteq> [] then 20 else 0)\<rparr>"

definition score_products ::
    "conversation option \<Rightarrow> current_preferences \<Rightarrow> string list \<Rightarrow> product list
      \<Rightarrow> candidate list" where
  "score_products conversation cp restrictions ps =
     map (score_product conversation cp restrictions) ps"

text \<open>The sort: a stable sort, highest score first, cut to the limit.\<close>

definition top_recommendations ::
    "conversation option \<Rightarrow> current_preferences \<Rightarrow> string list \<Rightarrow> product list \<Rightarrow> int
      \<Rightarrow> candidate list" where
  "top_recommendations conversation cp restrictions ps limit =
     py_take limit
       (sort_key (\<lambda>r. - score r)
          (score_products conversation cp restrictions
             (budget_filter cp (category_filter cp ps))))"

text \<open>
  The fallback query
  \<open>db.query(Product).filter(Product.category.ilike(f'%{category}%'))
     .order_by(Product.popularity_score.desc()).all()\<close>
  on the product table: a case-insensitive containment test, highest popularity first.
  Rows without a popularity are put last.
\<close>

definition order_by_popularity_desc :: "product list \<Rightarrow> product list" where
  "order_by_popularity_desc ps =
     sort_key (\<lambda>p. - the (popularity_score p)) (filter (\<lambda>p. popularity_score p \<noteq> None) ps)
     @ filter (\<lambda>p. popularity_score p = None) ps"

definition fallback_query :: "product list \<Rightarrow> string \<Rightarrow> product list" where
  "fallback_query table c =
     order_by_popularity_desc (filter (\<lambda>p. str_in (lower c) (lower (category p))) table)"

text \<open>
  Which branch produced the result: the "no match" notice, the ranked list of STEP 4, or
  the fallback list of STEP 5.
\<close>

datatype outcome = NoMatch recommendation | Ranked "candidate list" | Fallback "candidate list"

text \<open>The restrictions in force for a request, and the list STEP 4 ends with.\<close>

definition request_restrictions :: "conversation option \<Rightarrow> string \<Rightarrow> string list" where
  "request_restrictions conversation current_message =
     all_dietary_restrictions conversation (extract_food_preferences_from_message current_message)"

definition primary_ranking ::
    "conversation option \<Rightarrow> product list \<Rightarrow> string \<Rightarrow> int \<Rightarrow> candidate list" where
  "primary_ranking conversation table current_message limit =
     (let restrictions = request_restrictions conversation current_message
      in top_recommendations conversation
           (extract_food_preferences_from_message current_message) restrictions
           (strict_dietary_filter table restrictions) limit)"

text \<open>\<open>not top_recommendations or all(rec['score'] < 30 for rec in top_recommendations)\<close>\<close>

definition fallback_condition :: "candidate list \<Rightarrow> bool" where
  "fallback_condition ranked = (ranked = [] \<or> list_all (\<lambda>r. score r < 30) ranked)"

text \<open>The fallback products of a category, with the dietary filter applied again.\<close>

definition fallback_products ::
    "conversation option \<Rightarrow> product list \<Rightarrow> string \<Rightarrow> string \<Rightarrow> product list" where
  "fallback_products conversation table current_message c =
     strict_dietary_filter (fallback_query table c)
       (request_restrictions conversation current_message)"

definition fallback_recommendations :: "int \<Rightarrow> product list \<Rightarrow> candidate list" where
  "fallback_recommendations limit ps =
     map (\<lambda>p. \<lparr>product = p, score = of_int (popularity_or_50 p + 20)\<rparr>) (py_take limit ps)"

definition recommend ::
    "conversation option \<Rightarrow> product list \<Rightarrow> string \<Rightarrow> int \<Rightarrow> outcome" where
  "recommend conversation table current_message limit =
     (let cp = extract_food_preferences_from_message current_message;
          restrictions = request_restrictions conversation current_message
      in if restrictions \<noteq> [] \<and> strict_dietary_filter table restrictions = []
         then NoMatch (no_match restrictions)
         else
           (let ranked = primary_ranking conversation table current_message limit
            in if fallback_condition ranked then
                 (case categories cp of
                    [] \<Rightarrow> Ranked ranked
                  | c # _ \<Rightarrow>
                      (let fallback = fallback_products conversation table current_message c
                       in if fallback \<noteq> [] then Fallback (fallback_recommendations limit fallback)
                          else Ranked ranked))
               else Ranked ranked))"

definition format_recommendation :: "candidate \<Rightarrow> recommendation" where
  "format_recommendation rec =
     \<lparr>recommendation.product_id = product_id (product rec),
      recommendation.name = name (product rec),
      recommendation.category = category (product rec),
      recommendation.description = description (product rec),
      recommendation.price = price (product rec),
      recommendation.dietary_tags = dietary_tags (product rec),
      recommendation.mood_tags = mood_tags (product rec),
      recommendation.spice_level = spice_level (product rec),
      recommendation.popularity_score = popularity_score (product rec),
      recommendation_score = score rec\<rparr>"

definition get_personalized_recommendations ::
    "conversation option \<Rightarrow> product list \<Rightarrow> string \<Rightarrow> int \<Rightarrow> recommendation list" where
  "get_personalized_recommendations conversation table current_message limit =
     (case recommend conversation table current_message limit of
        NoMatch notice \<Rightarrow> [notice]
      | Ranked recs \<Rightarrow> map format_recommendation recs
      | Fallback recs \<Rightarrow> map format_recommendation recs)"

section \<open>Processing a message\<close>

text \<open>
  \<open>process_message\<close> works on SQLAlchemy objects and on the Gemini service. Three of its
  steps use a name the class at hand does not have, and Python raises there:
  \<^item> \<open>Conversation(..., interest_score=0)\<close>: the declarative constructor raises
    \<open>TypeError\<close> for a keyword that is no attribute of the class;
  \<^item> \<open>conversation.interest_score\<close> on a loaded row: \<open>AttributeError\<close>;
  \<^item> \<open>self.gemini_service.generate_response\<close>: \<open>AttributeError\<close>, and
    \<open>InteractionLog(..., interest_score=new_score)\<close>: \<open>TypeError\<close>.
  The outer \<open>except\<close> logs and raises again, so the error is the result of the call.
\<close>

datatype error = TypeError | AttributeError

text \<open>The attributes the classes of \<open>models.py\<close> and \<open>gemini_service.py\<close> declare.\<close>

definition Conversation_attributes :: "string list" where
  "Conversation_attributes =
     [''id'', ''conversation_id'', ''user_preferences'', ''dietary_restrictions'',
      ''budget_range'', ''mood_tags'', ''current_interest_score'', ''total_interactions'',
      ''started_at'', ''last_interaction'', ''status'', ''interactions'', ''to_dict'']"

definition InteractionLog_attributes :: "string list" where
  "InteractionLog_attributes =
     [''id'', ''conversation_id'', ''user_message'', ''bot_response'', ''interest_score_change'',
      ''current_interest_score'', ''engagement_factors'', ''recommended_products'',
      ''timestamp'', ''conversation'', ''to_dict'']"

definition GeminiService_attributes :: "string list" where
  "GeminiService_attributes =
     [''client'', ''model'', ''generate_content'', ''generate_structured_response'',
      ''analyze_conversation_sentiment'', ''generate_bot_response'']"

text \<open>
  The declarative constructor:
  \<open>for k in kwargs: if not hasattr(cls, k): raise TypeError(...)\<close>
\<close>

definition declarative_constructor :: "string list \<Rightarrow> string list \<Rightarrow> error + unit" where
  "declarative_constructor class_attributes kwargs =
     (if list_all (\<lambda>k. k \<in> set class_attributes) kwargs then Inr () else Inl TypeError)"

text \<open>
  Reading and writing \<open>conversation.interest_score\<close>, which is no column: the value is
  looked up in the attributes set on the object, and a write stores it there.
\<close>

definition get_interest_score :: "conversation \<Rightarrow> error + int" where
  "get_interest_score conv =
     (case map_of (instance_dict conv) ''interest_score'' of
        None \<Rightarrow> Inl AttributeError
      | Some v \<Rightarrow> Inr v)"

definition set_interest_score :: "conversation \<Rightarrow> int \<Rightarrow> conversation" where
  "set_interest_score conv v = conv\<lparr>instance_dict := (''interest_score'', v) # instance_dict conv\<rparr>"

text \<open>
  The store: the conversation and product tables, and the identifier \<open>uuid.uuid4()\<close>
  hands out next. A row loaded by a query is a fresh object: it has its columns and no
  further attributes.
\<close>

record store =
  conversations :: "conversation list"
  products :: "product list"
  next_uuid :: string

definition query_conversation :: "store \<Rightarrow> string \<Rightarrow> conversation option" where
  "query_conversation db cid =
     map_option (\<lambda>c. c\<lparr>instance_dict := []\<rparr>)
       (find (\<lambda>c. conversation_id c = cid) (conversations db))"

text \<open>Lines 89 to 108: get the conversation or create it.\<close>

definition get_conversation :: "string option \<Rightarrow> store \<Rightarrow> conversation option" where
  "get_conversation conv_id db =
     (case conv_id of
        None \<Rightarrow> None
      | Some cid \<Rightarrow> if cid = [] then None else query_conversation db cid)"

definition new_conversation :: "store \<Rightarrow> error + conversation" where
  "new_conversation db =
     (case declarative_constructor Conversation_attributes
             [''conversation_id'', ''user_preferences'', ''dietary_restrictions'', ''mood_tags'',
              ''interest_score''] of
        Inl e \<Rightarrow> Inl e
      | Inr _ \<Rightarrow>
          Inr \<lparr>conversation_id = next_uuid db, user_preferences = Some [],
               dietary_restrictions = Some [], budget_range = None,
               conversation.mood_tags = Some [], current_interest_score = 0,
               instance_dict = [(''interest_score'', 0)]\<rparr>)"

text \<open>
  Lines 121 to 134, for one column:
  \<open>if new: for x in new: if x not in column: column.append(x)\<close>.
  On a NULL column \<open>x not in None\<close> raises \<open>TypeError\<close>.
\<close>

definition merge_column :: "string list option \<Rightarrow> string list \<Rightarrow> error + string list option" where
  "merge_column column new =
     (if new = [] then Inr column
      else case column of
             None \<Rightarrow> Inl TypeError
           | Some old \<Rightarrow> Inr (Some (merge_into old new)))"

definition merge_preferences :: "conversation \<Rightarrow> preferences \<Rightarrow> error + conversation" where
  "merge_preferences conv prefs =
     (case merge_column (dietary_restrictions conv) (preferences.dietary prefs) of
        Inl e \<Rightarrow> Inl e
      | Inr d \<Rightarrow>
          (case merge_column (conversation.mood_tags conv) (preferences.moods prefs) of
             Inl e \<Rightarrow> Inl e
           | Inr m \<Rightarrow>
               (case merge_column (user_preferences conv) (specific_prefs prefs) of
                  Inl e \<Rightarrow> Inl e
                | Inr u \<Rightarrow>
                    Inr (conv\<lparr>dietary_restrictions := d, conversation.mood_tags := m,
                              user_preferences := u\<rparr>))))"

text \<open>
  \<open>process_message\<close>: the error raised, or the updated conversation and the returned
  dictionary (without the generated reply text).
\<close>

definition process_message ::
    "string \<Rightarrow> string option \<Rightarrow> store \<Rightarrow> error + conversation \<times> response" where
  "process_message message conv_id db =
     (case (case get_conversation conv_id db of
              None \<Rightarrow> new_conversation db
            | Some c \<Rightarrow> Inr c) of
        Inl e \<Rightarrow> Inl e
      | Inr conv \<Rightarrow>
          (let change = calculate_interest_score_change message
           in case get_interest_score conv of
                Inl e \<Rightarrow> Inl e
              | Inr old_score \<Rightarrow>
                  (let new_score = max 0 (min 100 (old_score + fst change))
                   in case merge_preferences (set_interest_score conv new_score)
                             (extract_preferences message) of
                        Inl e \<Rightarrow> Inl e
                      | Inr conv' \<Rightarrow>
                          if ''generate_response'' \<notin> set GeminiService_attributes
                          then Inl AttributeError
                          else
                            (case declarative_constructor InteractionLog_attributes
                                    [''conversation_id'', ''user_message'', ''bot_response'',
                                     ''interest_score'', ''engagement_factors''] of
                               Inl e \<Rightarrow> Inl e
                             | Inr _ \<Rightarrow>
                                 Inr (conv',
                                      \<lparr>response.conversation_id = conversation_id conv',
                                       interest_score = new_score,
                                       interest_score_change = fst change,
                                       engagement_factors = snd change,
                                       recommendations =
                                         (if new_score > 30
                                          then get_personalized_recommendations (Some conv')
                                                 (products db) message 3
                                          else [])\<rparr>)))))"

section \<open>Sample data\<close>

text \<open>Rows and stores used to evaluate the functions above on concrete inputs.\<close>

definition veggie_wrap :: product where
  "veggie_wrap = \<lparr>product_id = ''P1'', name = ''Veggie Wrap'', category = ''Sandwiches'',
      description = ''Grilled vegetables in a wrap'', ingredients = Some [''tortilla'', ''peppers''],
      price = 8, dietary_tags = Some [''vegetarian''], mood_tags = Some [''healthy''],
      allergens = Some [], popularity_score = Some 70, chef_special = False,
      limited_time = False, spice_level = Some 2\<rparr>"

definition beef_burger :: product where
  "beef_burger = \<lparr>product_id = ''P2'', name = ''Classic Burger'', category = ''Burgers'',
      description = ''Juicy beef patty with lettuce'', ingredients = Some [''bun'', ''lettuce''],
      price = 12, dietary_tags = None, mood_tags = Some [''comfort''],
      allergens = Some [], popularity_score = Some 90, chef_special = False,
      limited_time = False, spice_level = Some 1\<rparr>"

definition garden_bowl :: product where
  "garden_bowl = \<lparr>product_id = ''P3'', name = ''Garden Bowl'', category = ''Salads'',
      description = ''Lettuce and tomato'', ingredients = Some [''lettuce'', ''tomato''],
      price = 15, dietary_tags = Some [], mood_tags = None,
      allergens = None, popularity_score = Some 0, chef_special = False,
      limited_time = False, spice_level = None\<rparr>"

definition sample_table :: "product list" where
  "sample_table = [veggie_wrap, beef_burger, garden_bowl]"

definition plain_pizza :: product where
  "plain_pizza = \<lparr>product_id = ''P4'', name = ''Plain Pizza'', category = ''Pizza'',
      description = ''Tomato and basil'', ingredients = Some [''dough'', ''tomato''],
      price = 10, dietary_tags = Some [''vegetarian''], mood_tags = Some [''comfort''],
      allergens = Some [''gluten''], popularity_score = Some 0, chef_special = False,
      limited_time = False, spice_level = Some 0\<rparr>"

definition cheese_pizza :: product where
  "cheese_pizza = \<lparr>product_id = ''P5'', name = ''Four Cheese Pizza'', category = ''Pizza'',
      description = ''Mozzarella and gorgonzola'', ingredients = Some [''dough'', ''cheese''],
      price = 11, dietary_tags = Some [''vegetarian''], mood_tags = Some [''indulgent''],
      allergens = Some [''gluten'', ''dairy''], popularity_score = Some 85, chef_special = True,
      limited_time = False, spice_level = Some 0\<rparr>"

definition house_pizza :: product where
  "house_pizza = \<lparr>product_id = ''P6'', name = ''House Pizza'', category = ''Pizza'',
      description = ''Ask the chef'', ingredients = None,
      price = 9, dietary_tags = None, mood_tags = None,
      allergens = None, popularity_score = None, chef_special = False,
      limited_time = True, spice_level = None\<rparr>"

definition pizza_table :: "product list" where
  "pizza_table = [house_pizza, cheese_pizza]"

definition empty_store :: store where
  "empty_store = \<lparr>conversations = [], products = [], next_uuid = ''00000000-0000-4000-8000-000000000001''\<rparr>"

definition stored_conversation :: conversation where
  "stored_conversation =
     \<lparr>conversation_id = ''c1'', user_preferences = Some [], dietary_restrictions = Some [],
      budget_range = None, conversation.mood_tags = Some [], current_interest_score = 0,
      instance_dict = []\<rparr>"

definition one_conversation_store :: store where
  "one_conversation_store =
     \<lparr>conversations = [stored_conversation], products = [],
      next_uuid = ''00000000-0000-4000-8000-000000000002''\<rparr>"

definition budget_conversation :: conversation where
  "budget_conversation =
     \<lparr>conversation_id = ''c2'', user_preferences = Some [''spicy''], dietary_restrictions = None,
      budget_range = Some (UnderAmount 10), conversation.mood_tags = Some [''comfort''],
      current_interest_score = 45, instance_dict = []\<rparr>"

section \<open>Auxiliary facts\<close>

lemma str_in_lower: "str_in k m \<Longrightarrow> str_in (lower k) (lower m)"
  by (simp add: str_in_def lower_def map_mono_sublist)

lemma any_found_member: "k \<in> set kws \<Longrightarrow> str_in k m \<Longrightarrow> any_found kws m"
  by (auto simp: any_found_def list_ex_iff)

lemma count_found_member: "k \<in> set kws \<Longrightarrow> str_in k m \<Longrightarrow> 0 < count_found kws m"
  by (auto simp: count_found_def length_greater_0_conv filter_empty_conv)

lemma factor_weights:
  "weight NEGATIVE_FACTORS ''hesitation'' = - 10"
  "weight ENGAGEMENT_FACTORS ''enthusiasm_words'' = 8"
  by code_simp+

lemma set_merge_into: "set (merge_into old new) = set old \<union> set new"
  by (induction new arbitrary: old) auto

lemma merge_into_known: "set new \<subseteq> set old \<Longrightarrow> merge_into old new = old"
  by (induction new arbitrary: old) auto

lemma prefix_merge_into: "prefix old (merge_into old new)"
proof (induction new arbitrary: old)
  case Nil
  then show ?case by simp
next
  case (Cons x xs)
  have "prefix old (if x \<in> set old then old else old @ [x])" by simp
  from prefix_order.trans [OF this Cons.IH] show ?case by simp
qed

lemma raw_delta_hesitation_enthusiasm:
  assumes "hesitation_found m" "0 < enthusiasm_found m"
    and "specific_prefs_found m = 0" "\<not> dietary_found m" "\<not> budget_mentioned m"
    and "\<not> mood_found m" "\<not> question_found m" "\<not> price_inquiry m" "\<not> order_intent m"
    and "\<not> budget_concern m" "\<not> rejection_found m"
  shows "fst (calculate_interest_score_change m) = - 2"
  using assms by (simp add: calculate_interest_score_change_def bump_def factor_weights)

lemma lower_strict_labels:
  "lower ''vegetarian'' = ''vegetarian''" "lower ''vegan'' = ''vegan''"
  by code_simp+

lemma is_suitable_iff: "is_suitable p rs \<longleftrightarrow> (\<forall>r \<in> set rs. \<not> restriction_fails p r)"
  by (induction rs) auto

lemma untagged_strict_fails:
  "r = ''vegetarian'' \<or> r = ''vegan'' \<Longrightarrow> r \<notin> set (product_dietary_tags p) \<Longrightarrow> restriction_fails p r"
  by (auto simp: restriction_fails_def lower_strict_labels)

lemma tagged_passes:
  "r \<in> set (or_empty (dietary_tags p)) \<Longrightarrow> \<not> restriction_fails p r"
  by (simp add: restriction_fails_def product_dietary_tags_def lower_def)

lemma sublist_join: "r \<in> set xs \<Longrightarrow> sublist r (join sep xs)"
proof (induction sep xs rule: join.induct)
  case (1 sep)
  then show ?case by simp
next
  case (2 sep x)
  then show ?case by simp
next
  case (3 sep x y ys)
  show ?case
  proof (cases "r = x")
    case True
    then show ?thesis by simp
  next
    case False
    with 3 have "sublist r (join sep (y # ys))" by simp
    then obtain ps ss where "join sep (y # ys) = ps @ r @ ss"
      by (auto simp: sublist_def)
    then have "join sep (x # y # ys) = (x @ sep @ ps) @ r @ ss" by simp
    then show ?thesis unfolding sublist_def by blast
  qed
qed

lemma str_in_mid: "sublist r m \<Longrightarrow> str_in r (pre @ m @ post)"
proof -
  assume "sublist r m"
  then obtain ps ss where "m = ps @ r @ ss" by (auto simp: sublist_def)
  then have "pre @ m @ post = (pre @ ps) @ r @ (ss @ post)" by simp
  then show ?thesis unfolding str_in_def sublist_def by blast
qed

lemma r_vegan: "request_restrictions None ''vegan'' = [''vegetarian'', ''vegan'']"
  by code_simp

lemma set_py_take: "set (py_take n xs) \<subseteq> set xs"
  by (auto simp: py_take_def dest: in_set_takeD)










lemma fallback_condition_iff:
  "fallback_condition ranked \<longleftrightarrow> ranked = [] \<or> (\<forall>r \<in> set ranked. score r < 30)"
  by (simp add: fallback_condition_def list_all_iff)

lemma filtered_is_suitable: "p \<in> set (strict_dietary_filter ps rs) \<Longrightarrow> is_suitable p rs"
  by (auto simp: strict_dietary_filter_def split: if_splits)

lemma fallback_recommendations_member:
  "r \<in> set (fallback_recommendations limit ps)
   \<Longrightarrow> product r \<in> set ps \<and> score r = of_int (popularity_or_50 (product r) + 20)"
  using set_py_take [of limit ps] by (auto simp: fallback_recommendations_def)

lemma popularity_or_50_cases:
  "popularity_score p = Some v \<Longrightarrow> v \<noteq> 0 \<Longrightarrow> popularity_or_50 p = v"
  "popularity_score p = None \<Longrightarrow> popularity_or_50 p = 50"
  by (simp_all add: popularity_or_50_def)

lemma score_format: "recommendation_score (format_recommendation r) = score r"
  by (simp add: format_recommendation_def)

lemma recommend_no_notice:
  assumes "\<not> (request_restrictions conv msg \<noteq> []
              \<and> strict_dietary_filter table (request_restrictions conv msg) = [])"
  shows "recommend conv table msg limit
     = (if fallback_condition (primary_ranking conv table msg limit) then
          (case categories (extract_food_preferences_from_message msg) of
             [] \<Rightarrow> Ranked (primary_ranking conv table msg limit)
           | c # _ \<Rightarrow>
               if fallback_products conv table msg c \<noteq> []
               then Fallback (fallback_recommendations limit (fallback_products conv table msg c))
               else Ranked (primary_ranking conv table msg limit))
        else Ranked (primary_ranking conv table msg limit))"
proof -
  have c: "(request_restrictions conv msg \<noteq> []
      \<and> strict_dietary_filter table (request_restrictions conv msg) = []) = False"
    using assms by blast
  show ?thesis
    unfolding recommend_def Let_def c if_False ..
qed

lemma gpr_no_notice:
  assumes "\<not> (request_restrictions conv msg \<noteq> []
        \<and> strict_dietary_filter table (request_restrictions conv msg) = [])"
  shows "get_personalized_recommendations conv table msg limit
       = map format_recommendation
           (if primary_ranking conv table msg limit = []
               \<or> (\<forall>r \<in> set (primary_ranking conv table msg limit). score r < 30)
            then (case categories (extract_food_preferences_from_message msg) of
                    [] \<Rightarrow> primary_ranking conv table msg limit
                  | c # _ \<Rightarrow>
                      if fallback_products conv table msg c \<noteq> []
                      then fallback_recommendations limit (fallback_products conv table msg c)
                      else primary_ranking conv table msg limit)
            else primary_ranking conv table msg limit)"
  unfolding get_personalized_recommendations_def recommend_no_notice [OF assms]
    fallback_condition_iff
  by (simp split: list.split)

lemma recommend_Fallback:
  "recommend conv table msg limit = Fallback recs
   \<Longrightarrow> (primary_ranking conv table msg limit = []
        \<or> (\<forall>r \<in> set (primary_ranking conv table msg limit). score r < 30))
       \<and> categories (extract_food_preferences_from_message msg) \<noteq> []"
  by (auto simp: recommend_def Let_def fallback_condition_iff split: if_splits list.splits)

lemma budget_of_hint_messages:
  "budget (extract_food_preferences_from_message ''under $10'') = Some (UnderAmount 10)"
  "budget (extract_food_preferences_from_message ''around $10'') = Some (AroundAmount 10)"
  by code_simp+

lemma new_conversation_raises: "new_conversation db = Inl TypeError"
  by (simp add: new_conversation_def declarative_constructor_def Conversation_attributes_def)

lemma loaded_has_no_interest_score:
  "query_conversation db cid = Some c \<Longrightarrow> get_interest_score c = Inl AttributeError"
  by (auto simp: query_conversation_def get_interest_score_def)

lemma get_conversation_loaded:
  "get_conversation conv_id db = Some c \<Longrightarrow> get_interest_score c = Inl AttributeError"
  by (auto simp: get_conversation_def loaded_has_no_interest_score split: option.splits if_splits)

lemma rweights:
  "rweight ''current_request_match'' = 0.4" "rweight ''preference_match'' = 0.2"
  "rweight ''mood_match'' = 0.15" "rweight ''dietary_compatibility'' = 0.15"
  "rweight ''budget_fit'' = 0.05" "rweight ''popularity'' = 0.05"
  by (simp_all add: rweight_def recommendation_weights_def)

section \<open>The interest score\<close>

text \<open>
  C8. A message that contains "maybe" and "amazing" and triggers none of the other nine
  detection tests has the raw score change \<open>-2\<close>, hesitation \<open>-10\<close> plus enthusiasm \<open>+8\<close>.
\<close>

theorem maybe_amazing_delta:
  assumes "str_in ''maybe'' m" "str_in ''amazing'' m"
    and "specific_prefs_found m = 0" "\<not> dietary_found m" "\<not> budget_mentioned m"
    and "\<not> mood_found m" "\<not> question_found m" "\<not> price_inquiry m" "\<not> order_intent m"
    and "\<not> budget_concern m" "\<not> rejection_found m"
  shows "fst (calculate_interest_score_change m)
         = weight NEGATIVE_FACTORS ''hesitation'' + weight ENGAGEMENT_FACTORS ''enthusiasm_words''
       \<and> fst (calculate_interest_score_change m) = - 2"
proof -
  have l1: "lower ''maybe'' = ''maybe''" and l2: "lower ''amazing'' = ''amazing''"
    by code_simp+
  have "str_in ''maybe'' (lower m)" using str_in_lower [OF assms(1)] l1 by simp
  moreover have "''maybe'' \<in> set hesitation_keywords" by (simp add: hesitation_keywords_def)
  ultimately have h: "hesitation_found m"
    unfolding hesitation_found_def by (rule any_found_member [rotated])
  have "str_in ''amazing'' (lower m)" using str_in_lower [OF assms(2)] l2 by simp
  moreover have "''amazing'' \<in> set enthusiasm_keywords" by (simp add: enthusiasm_keywords_def)
  ultimately have e: "0 < enthusiasm_found m"
    unfolding enthusiasm_found_def by (rule count_found_member [rotated])
  from raw_delta_hesitation_enthusiasm [OF h e assms(3-)] show ?thesis
    by (simp add: factor_weights)
qed

theorem maybe_amazing_delta_witness:
  "str_in ''maybe'' ''maybe amazing'' \<and> str_in ''amazing'' ''maybe amazing''
   \<and> fst (calculate_interest_score_change ''maybe amazing'') = - 2"
proof -
  have h: "str_in ''maybe'' ''maybe amazing''" "str_in ''amazing'' ''maybe amazing''"
    "specific_prefs_found ''maybe amazing'' = 0" "\<not> dietary_found ''maybe amazing''"
    "\<not> budget_mentioned ''maybe amazing''" "\<not> mood_found ''maybe amazing''"
    "\<not> question_found ''maybe amazing''" "\<not> price_inquiry ''maybe amazing''"
    "\<not> order_intent ''maybe amazing''" "\<not> budget_concern ''maybe amazing''"
    "\<not> rejection_found ''maybe amazing''"
    by code_simp+
  from maybe_amazing_delta [OF h] h(1,2) show ?thesis by simp
qed

section \<open>Message processing\<close>

text \<open>
  C1. The claim: a conversation starts with score 0 and every processed message sets the
  score to the old score plus the raw change, clamped to \<open>[0, 100]\<close>. The clamp is
  written at line 116, but no call gets there: \<open>process_message\<close> raises on every
  input, \<open>TypeError\<close> when the conversation has to be created (the keyword
  \<open>interest_score\<close> is no attribute of \<open>Conversation\<close>) and \<open>AttributeError\<close> when it was
  loaded (the object has no \<open>interest_score\<close> to read). No score is ever created or
  updated.
\<close>

theorem process_message_raises:
  "process_message message conv_id db
     = (case get_conversation conv_id db of None \<Rightarrow> Inl TypeError | Some c \<Rightarrow> Inl AttributeError)
   \<and> (\<forall>result. process_message message conv_id db \<noteq> Inr result)"
proof (cases "get_conversation conv_id db")
  case None
  then show ?thesis
    by (simp add: process_message_def new_conversation_raises)
next
  case (Some c)
  then show ?thesis
    using get_conversation_loaded [OF Some]
    by (simp add: process_message_def Let_def)
qed

text \<open>
  C4. The claim: the returned score change is the post-clamp minus the pre-clamp score.
  For the message "maybe" and no conversation id the call raises \<open>TypeError\<close> and returns
  no dictionary. The value the return statement names is the raw change, here \<open>-10\<close>,
  while clamping from 0 would apply a change of 0.
\<close>

theorem maybe_message_returns_no_change:
  "process_message ''maybe'' None empty_store = Inl TypeError
   \<and> fst (calculate_interest_score_change ''maybe'') = - 10
   \<and> max 0 (min 100 (0 + fst (calculate_interest_score_change ''maybe''))) - 0 = (0 :: int)"
  by code_simp

text \<open>
  C9. The claim: the extracted preferences are merged into the conversation as a set
  union. The message "vegan" mentions the dietary keyword "vegan". As the first message
  of a session the call raises \<open>TypeError\<close> when the conversation is created; for a
  stored conversation with empty lists it raises \<open>AttributeError\<close> before the merging
  loops. Nothing is merged.
\<close>

theorem vegan_message_merges_nothing:
  "process_message ''vegan'' None empty_store = Inl TypeError
   \<and> process_message ''vegan'' (Some ''c1'') one_conversation_store = Inl AttributeError
   \<and> preferences.dietary (extract_preferences ''vegan'') = [''vegan'']
   \<and> dietary_restrictions stored_conversation = Some []"
  by code_simp

section \<open>Budget fit\<close>

text \<open>
  C7. For a product priced 12 and a conversation, the budget-fit sub-score is 80 when the
  active budget hint is "under $10", that is \<open>100 - (12 - 10) * 10\<close>, and 90 when it is
  "around $10", that is \<open>100 - |12 - 10| * 5\<close>; the recommendation score is the rounded
  sum of the six weighted sub-scores, in which this sub-score enters with the weight 0.05.
  The active hint is the one of the current message, else the one stored with the
  conversation; the messages "under $10" and "around $10" give the two hints.
\<close>

theorem budget_fit_subscore:
  assumes "price p = 12"
  shows "(active_budget cp conv = Some (UnderAmount 10)
            \<longrightarrow> budget_score (active_budget cp conv) (price p) = 80
              \<and> budget_score (active_budget cp conv) (price p) = 100 - (12 - 10) * 10
              \<and> calculate_recommendation_score p (Some conv) cp
                  = round2 (of_int (current_request_score p cp) * 0.4
                            + (of_int (preference_score p conv) * 0.2
                               + of_int (mood_score p conv) * 0.15
                               + of_int (dietary_score p (or_empty (dietary_restrictions conv))) * 0.15
                               + 80 * 0.05)
                            + of_int (popularity_or_50 p) * 0.05))
       \<and> (active_budget cp conv = Some (AroundAmount 10)
            \<longrightarrow> budget_score (active_budget cp conv) (price p) = 90
              \<and> budget_score (active_budget cp conv) (price p) = 100 - \<bar>12 - 10\<bar> * 5
              \<and> calculate_recommendation_score p (Some conv) cp
                  = round2 (of_int (current_request_score p cp) * 0.4
                            + (of_int (preference_score p conv) * 0.2
                               + of_int (mood_score p conv) * 0.15
                               + of_int (dietary_score p (or_empty (dietary_restrictions conv))) * 0.15
                               + 90 * 0.05)
                            + of_int (popularity_or_50 p) * 0.05))
       \<and> (budget cp = Some hint \<longrightarrow> active_budget cp conv = Some hint)
       \<and> (budget cp = None \<longrightarrow> active_budget cp conv = budget_range conv)
       \<and> budget (extract_food_preferences_from_message ''under $10'') = Some (UnderAmount 10)
       \<and> budget (extract_food_preferences_from_message ''around $10'') = Some (AroundAmount 10)"
  using assms
  by (simp add: calculate_recommendation_score_def budget_score_def rweights active_budget_def
      budget_of_hint_messages)

theorem budget_fit_subscore_witness:
  "price beef_burger = 12
   \<and> active_budget (extract_food_preferences_from_message ''burger'') budget_conversation
       = Some (UnderAmount 10)
   \<and> budget_score (active_budget (extract_food_preferences_from_message ''burger'')
         budget_conversation) (price beef_burger) = 80
   \<and> calculate_recommendation_score beef_burger (Some budget_conversation)
         (extract_food_preferences_from_message ''burger'') = 60
   \<and> active_budget (extract_food_preferences_from_message ''around $10'') budget_conversation
       = Some (AroundAmount 10)
   \<and> budget_score (active_budget (extract_food_preferences_from_message ''around $10'')
         budget_conversation) (price beef_burger) = 90"
proof -
  have h1: "price beef_burger = 12"
    by (simp add: beef_burger_def)
  have h2: "active_budget (extract_food_preferences_from_message ''burger'') budget_conversation
       = Some (UnderAmount 10)"
    by code_simp
  have h3: "active_budget (extract_food_preferences_from_message ''around $10'') budget_conversation
       = Some (AroundAmount 10)"
    by code_simp
  have v: "calculate_recommendation_score beef_burger (Some budget_conversation)
         (extract_food_preferences_from_message ''burger'') = 60"
    by code_simp
  from budget_fit_subscore [OF h1, of "extract_food_preferences_from_message ''burger''"
         budget_conversation]
       budget_fit_subscore [OF h1, of "extract_food_preferences_from_message ''around $10''"
         budget_conversation]
       h1 h2 h3 v
  show ?thesis by blast
qed

section \<open>The dietary filter\<close>

text \<open>
  C2. Under the single restriction "vegetarian", a product of the list whose dietary tags
  contain "vegetarian" is kept, and a product without dietary tags whose description
  contains "beef" is dropped. For "vegetarian" and "vegan", a product that lacks the
  matching tag is dropped under any restriction list holding that label, also when none
  of the label's exclusion terms occurs in its name, description or ingredients.
\<close>

theorem vegetarian_filter:
  "(''vegetarian'' \<in> set (or_empty (dietary_tags p)) \<and> p \<in> set ps
      \<longrightarrow> p \<in> set (strict_dietary_filter ps [''vegetarian'']))
   \<and> (or_empty (dietary_tags q) = [] \<and> str_in ''beef'' (description q)
      \<longrightarrow> q \<notin> set (strict_dietary_filter ps [''vegetarian'']))
   \<and> ((r = ''vegetarian'' \<or> r = ''vegan'') \<and> r \<in> set rs
       \<and> r \<notin> set (product_dietary_tags u)
       \<and> \<not> any_found (dict_get dietary_exclusions r) (product_text u)
      \<longrightarrow> u \<notin> set (strict_dietary_filter ps rs))"
proof (intro conjI impI)
  assume "''vegetarian'' \<in> set (or_empty (dietary_tags p)) \<and> p \<in> set ps"
  then show "p \<in> set (strict_dietary_filter ps [''vegetarian''])"
    by (simp add: strict_dietary_filter_def tagged_passes)
next
  assume a: "or_empty (dietary_tags q) = [] \<and> str_in ''beef'' (description q)"
  then have "''vegetarian'' \<notin> set (product_dietary_tags q)"
    by (simp add: product_dietary_tags_def)
  then have "restriction_fails q ''vegetarian''"
    by (simp add: untagged_strict_fails)
  then show "q \<notin> set (strict_dietary_filter ps [''vegetarian''])"
    by (simp add: strict_dietary_filter_def)
next
  assume a: "(r = ''vegetarian'' \<or> r = ''vegan'') \<and> r \<in> set rs
       \<and> r \<notin> set (product_dietary_tags u)
       \<and> \<not> any_found (dict_get dietary_exclusions r) (product_text u)"
  then have "restriction_fails u r"
    using untagged_strict_fails [of r u] by blast
  with a have "\<not> is_suitable u rs"
    by (auto simp: is_suitable_iff)
  moreover from a have "rs \<noteq> []" by auto
  ultimately show "u \<notin> set (strict_dietary_filter ps rs)"
    by (simp add: strict_dietary_filter_def)
qed

theorem vegetarian_filter_witness:
  "(''vegetarian'' \<in> set (or_empty (dietary_tags veggie_wrap)) \<and> veggie_wrap \<in> set sample_table)
   \<and> (or_empty (dietary_tags beef_burger) = [] \<and> str_in ''beef'' (description beef_burger))
   \<and> \<not> any_found (dict_get dietary_exclusions ''vegan'') (product_text garden_bowl)
   \<and> veggie_wrap \<in> set (strict_dietary_filter sample_table [''vegetarian''])
   \<and> beef_burger \<notin> set (strict_dietary_filter sample_table [''vegetarian''])
   \<and> garden_bowl \<notin> set (strict_dietary_filter sample_table [''vegan''])"
proof -
  have h1: "''vegetarian'' \<in> set (or_empty (dietary_tags veggie_wrap)) \<and> veggie_wrap \<in> set sample_table"
    by code_simp
  have h2: "or_empty (dietary_tags beef_burger) = [] \<and> str_in ''beef'' (description beef_burger)"
    by code_simp
  have h3: "(''vegan'' = ''vegetarian'' \<or> ''vegan'' = ''vegan'') \<and> ''vegan'' \<in> set [''vegan'']
       \<and> ''vegan'' \<notin> set (product_dietary_tags garden_bowl)
       \<and> \<not> any_found (dict_get dietary_exclusions ''vegan'') (product_text garden_bowl)"
    by code_simp
  from vegetarian_filter [of veggie_wrap sample_table beef_burger "''vegan''" "[''vegan'']" garden_bowl]
    h1 h2 h3
  show ?thesis by blast
qed

text \<open>
  C6. The claim: the decision does not depend on the letter case of a restriction label.
  The tag test lower-cases the label, but the lookup of the exclusion terms and the test
  for the two strict labels use it as given. A beef burger without tags is dropped under
  "vegetarian" and kept under "Vegetarian".
\<close>

theorem label_case_changes_filter:
  "strict_dietary_filter [beef_burger] [''vegetarian''] = []
   \<and> strict_dietary_filter [beef_burger] [''Vegetarian''] = [beef_burger]"
  by code_simp

text \<open>
  C3, as amended. When there are dietary restrictions and the filter, applied to the whole
  product table, leaves no product, \<open>get_personalized_recommendations\<close> returns the
  one-element list holding the notice with product id "no_match" (so not the empty
  list), and every restriction occurs in the notice's description.
\<close>

theorem no_match_notice:
  assumes "request_restrictions conv msg \<noteq> []"
    and "strict_dietary_filter table
           (request_restrictions conv msg) = []"
  shows "get_personalized_recommendations conv table msg limit
           = [no_match (request_restrictions conv msg)]
       \<and> get_personalized_recommendations conv table msg limit \<noteq> []
       \<and> recommendation.product_id (hd (get_personalized_recommendations conv table msg limit))
           = ''no_match''
       \<and> (\<forall>r \<in> set (request_restrictions conv msg).
            str_in r (recommendation.description
                        (hd (get_personalized_recommendations conv table msg limit))))"
proof -
  have eq: "get_personalized_recommendations conv table msg limit
      = [no_match (request_restrictions conv msg)]"
    using assms by (simp add: get_personalized_recommendations_def recommend_def Let_def)
  have d: "recommendation.description (no_match rs)
      = ''Sorry, no products match your '' @ join '', '' rs @ '' requirements.''" for rs
    by (simp add: no_match_def)
  have names: "\<forall>r \<in> set rs. str_in r (recommendation.description (no_match rs))" for rs
    unfolding d by (blast intro: str_in_mid sublist_join)
  have pid: "recommendation.product_id (no_match rs) = ''no_match''" for rs
    by (simp add: no_match_def)
  show ?thesis
    unfolding eq using names pid by simp
qed

theorem no_match_notice_witness:
  "request_restrictions None ''vegan'' \<noteq> []
   \<and> strict_dietary_filter [beef_burger]
        (request_restrictions None ''vegan'') = []
   \<and> recommendation.description (hd (get_personalized_recommendations None [beef_burger] ''vegan'' 3))
       = ''Sorry, no products match your vegetarian, vegan requirements.''"
proof -
  have h1: "request_restrictions None ''vegan'' \<noteq> []"
    by code_simp
  have h2: "strict_dietary_filter [beef_burger]
        (request_restrictions None ''vegan'') = []"
    by code_simp
  from no_match_notice [OF h1 h2, of 3] h1 h2 show ?thesis
    by (simp add: r_vegan no_match_def)
qed

text \<open>
  The claim as stated covers every call of the filter. In the fallback the filter is
  applied again, and when it leaves no fallback product there the ranked list stands,
  also when that list is empty: for the table of a vegetarian wrap and a beef burger
  and the message "vegetarian burger under $5" the result is the empty list.
\<close>

theorem fallback_filter_empties_result:
  "request_restrictions None ''vegetarian burger under $5'' = [''vegetarian'']
   \<and> strict_dietary_filter [veggie_wrap, beef_burger] [''vegetarian''] = [veggie_wrap]
   \<and> fallback_query [veggie_wrap, beef_burger] ''burgers'' = [beef_burger]
   \<and> strict_dietary_filter (fallback_query [veggie_wrap, beef_burger] ''burgers'') [''vegetarian''] = []
   \<and> get_personalized_recommendations None [veggie_wrap, beef_burger]
        ''vegetarian burger under $5'' 3 = []"
  by code_simp

section \<open>The budget hint as a filter\<close>




section \<open>The fallback\<close>

text \<open>
  C5, as amended. Unless the "no match" notice is returned: the fallback list is the
  result only if the ranked list (cut to the limit) is empty or all its scores are below
  30, and only if the message mentions a category; when the ranked list has a score of
  30 or more, or no category is mentioned, the ranked list is returned. When the
  condition holds and a category is mentioned, the fallback products of the first
  category are filtered by the dietary restrictions again; if any remain they are
  returned in place of the ranked list, otherwise the ranked list stands. Each fallback
  entry is a row of the category query that passes the dietary restrictions; its score
  is popularity + 20 when the popularity is set and not 0, and 50 + 20 when it is unset.
\<close>

theorem fallback_strategy:
  assumes "\<not> (request_restrictions conv msg \<noteq> []
              \<and> strict_dietary_filter table (request_restrictions conv msg) = [])"
  shows "(recommend conv table msg limit = Fallback recs
            \<longrightarrow> (primary_ranking conv table msg limit = []
                  \<or> (\<forall>r \<in> set (primary_ranking conv table msg limit). score r < 30))
                \<and> categories (extract_food_preferences_from_message msg) \<noteq> [])
       \<and> (\<not> (primary_ranking conv table msg limit = []
               \<or> (\<forall>r \<in> set (primary_ranking conv table msg limit). score r < 30))
            \<longrightarrow> get_personalized_recommendations conv table msg limit
                  = map format_recommendation (primary_ranking conv table msg limit))
       \<and> (categories (extract_food_preferences_from_message msg) = []
            \<longrightarrow> get_personalized_recommendations conv table msg limit
                  = map format_recommendation (primary_ranking conv table msg limit))
       \<and> ((primary_ranking conv table msg limit = []
             \<or> (\<forall>r \<in> set (primary_ranking conv table msg limit). score r < 30))
           \<and> categories (extract_food_preferences_from_message msg) = c # cs
            \<longrightarrow> get_personalized_recommendations conv table msg limit
                  = map format_recommendation
                      (if fallback_products conv table msg c \<noteq> []
                       then fallback_recommendations limit (fallback_products conv table msg c)
                       else primary_ranking conv table msg limit))
       \<and> (\<forall>r \<in> set (fallback_recommendations limit (fallback_products conv table msg c)).
             product r \<in> set (fallback_query table c)
             \<and> is_suitable (product r) (request_restrictions conv msg)
             \<and> recommendation_score (format_recommendation r) = score r
             \<and> (\<forall>v. popularity_score (product r) = Some v \<and> v \<noteq> 0 \<longrightarrow> score r = of_int v + 20)
             \<and> (popularity_score (product r) = None \<longrightarrow> score r = 50 + 20))"
proof (intro conjI)
  show "recommend conv table msg limit = Fallback recs
            \<longrightarrow> (primary_ranking conv table msg limit = []
                  \<or> (\<forall>r \<in> set (primary_ranking conv table msg limit). score r < 30))
                \<and> categories (extract_food_preferences_from_message msg) \<noteq> []"
    using recommend_Fallback by blast
next
  show "\<not> (primary_ranking conv table msg limit = []
               \<or> (\<forall>r \<in> set (primary_ranking conv table msg limit). score r < 30))
            \<longrightarrow> get_personalized_recommendations conv table msg limit
                  = map format_recommendation (primary_ranking conv table msg limit)"
    by (simp add: gpr_no_notice [OF assms])
next
  show "categories (extract_food_preferences_from_message msg) = []
            \<longrightarrow> get_personalized_recommendations conv table msg limit
                  = map format_recommendation (primary_ranking conv table msg limit)"
    by (simp add: gpr_no_notice [OF assms])
next
  show "(primary_ranking conv table msg limit = []
             \<or> (\<forall>r \<in> set (primary_ranking conv table msg limit). score r < 30))
           \<and> categories (extract_food_preferences_from_message msg) = c # cs
            \<longrightarrow> get_personalized_recommendations conv table msg limit
                  = map format_recommendation
                      (if fallback_products conv table msg c \<noteq> []
                       then fallback_recommendations limit (fallback_products conv table msg c)
                       else primary_ranking conv table msg limit)"
    by (simp add: gpr_no_notice [OF assms])
next
  show "\<forall>r \<in> set (fallback_recommendations limit (fallback_products conv table msg c)).
             product r \<in> set (fallback_query table c)
             \<and> is_suitable (product r) (request_restrictions conv msg)
             \<and> recommendation_score (format_recommendation r) = score r
             \<and> (\<forall>v. popularity_score (product r) = Some v \<and> v \<noteq> 0 \<longrightarrow> score r = of_int v + 20)
             \<and> (popularity_score (product r) = None \<longrightarrow> score r = 50 + 20)"
  proof
    fix r
    assume "r \<in> set (fallback_recommendations limit (fallback_products conv table msg c))"
    from fallback_recommendations_member [OF this]
    have m: "product r \<in> set (fallback_products conv table msg c)"
      and sc: "score r = of_int (popularity_or_50 (product r) + 20)"
      by simp_all
    from m have suit: "is_suitable (product r) (request_restrictions conv msg)"
      unfolding fallback_products_def by (rule filtered_is_suitable)
    from m have q: "product r \<in> set (fallback_query table c)"
      by (auto simp: fallback_products_def strict_dietary_filter_def split: if_splits)
    from sc have s1: "\<forall>v. popularity_score (product r) = Some v \<and> v \<noteq> 0 \<longrightarrow> score r = of_int v + 20"
      by (auto simp: popularity_or_50_cases)
    from sc have s2: "popularity_score (product r) = None \<longrightarrow> score r = 50 + 20"
      by (auto simp: popularity_or_50_cases)
    show "product r \<in> set (fallback_query table c)
             \<and> is_suitable (product r) (request_restrictions conv msg)
             \<and> recommendation_score (format_recommendation r) = score r
             \<and> (\<forall>v. popularity_score (product r) = Some v \<and> v \<noteq> 0 \<longrightarrow> score r = of_int v + 20)
             \<and> (popularity_score (product r) = None \<longrightarrow> score r = 50 + 20)"
      using suit q s1 s2 score_format by blast
  qed
qed

theorem fallback_strategy_witness:
  "request_restrictions None ''pizza under $5'' = []
   \<and> primary_ranking None pizza_table ''pizza under $5'' 3 = []
   \<and> categories (extract_food_preferences_from_message ''pizza under $5'') = [''pizza'']
   \<and> fallback_products None pizza_table ''pizza under $5'' ''pizza'' = [cheese_pizza, house_pizza]
   \<and> get_personalized_recommendations None pizza_table ''pizza under $5'' 3
        = map format_recommendation (fallback_recommendations 3 [cheese_pizza, house_pizza])
   \<and> map score (fallback_recommendations 3 [cheese_pizza, house_pizza]) = [105, 70]
   \<and> primary_ranking None pizza_table ''pizza'' 3
        = [\<lparr>product = cheese_pizza, score = 145 / 4\<rparr>, \<lparr>product = house_pizza, score = 69 / 2\<rparr>]
   \<and> get_personalized_recommendations None pizza_table ''pizza'' 3
        = map format_recommendation (primary_ranking None pizza_table ''pizza'' 3)
   \<and> categories (extract_food_preferences_from_message ''something under $10'') = []
   \<and> get_personalized_recommendations None sample_table ''something under $10'' 3
        = map format_recommendation (primary_ranking None sample_table ''something under $10'' 3)"
proof -
  have a: "request_restrictions None ''pizza under $5'' = []"
    by code_simp
  then have a0: "\<not> (request_restrictions None ''pizza under $5'' \<noteq> []
        \<and> strict_dietary_filter pizza_table (request_restrictions None ''pizza under $5'') = [])"
    by simp
  have a1: "primary_ranking None pizza_table ''pizza under $5'' 3 = []"
    by code_simp
  have a2: "categories (extract_food_preferences_from_message ''pizza under $5'') = [''pizza'']"
    by code_simp
  have a3: "fallback_products None pizza_table ''pizza under $5'' ''pizza''
      = [cheese_pizza, house_pizza]"
    by code_simp
  have a4: "map score (fallback_recommendations 3 [cheese_pizza, house_pizza]) = [105, 70]"
    by code_simp
  have b0: "\<not> (request_restrictions None ''pizza'' \<noteq> []
        \<and> strict_dietary_filter pizza_table (request_restrictions None ''pizza'') = [])"
    by code_simp
  have b1: "primary_ranking None pizza_table ''pizza'' 3
      = [\<lparr>product = cheese_pizza, score = 145 / 4\<rparr>, \<lparr>product = house_pizza, score = 69 / 2\<rparr>]"
    by code_simp
  have b2: "\<not> (primary_ranking None pizza_table ''pizza'' 3 = []
          \<or> (\<forall>r \<in> set (primary_ranking None pizza_table ''pizza'' 3). score r < 30))"
    unfolding b1 by simp
  have c0: "\<not> (request_restrictions None ''something under $10'' \<noteq> []
        \<and> strict_dietary_filter sample_table (request_restrictions None ''something under $10'')
            = [])"
    by code_simp
  have c1: "categories (extract_food_preferences_from_message ''something under $10'') = []"
    by code_simp
  note fa = fallback_strategy [OF a0, where limit = 3 and c = "''pizza''" and cs = "[]"]
  note fb = fallback_strategy [OF b0, where limit = 3]
  note fc = fallback_strategy [OF c0, where limit = 3]
  have r1: "get_personalized_recommendations None pizza_table ''pizza under $5'' 3
        = map format_recommendation (fallback_recommendations 3 [cheese_pizza, house_pizza])"
    using fa [THEN conjunct2, THEN conjunct2, THEN conjunct2, THEN conjunct1] a1 a2 a3
    by simp
  have r3: "get_personalized_recommendations None pizza_table ''pizza'' 3
        = map format_recommendation (primary_ranking None pizza_table ''pizza'' 3)"
    using fb [THEN conjunct2, THEN conjunct1] b2 by blast
  have r4: "get_personalized_recommendations None sample_table ''something under $10'' 3
        = map format_recommendation (primary_ranking None sample_table ''something under $10'' 3)"
    using fc [THEN conjunct2, THEN conjunct2, THEN conjunct1] c1 by blast
  from a a1 a2 a3 r1 a4 b1 r3 c1 r4 show ?thesis by blast
qed

text \<open>
  The claim as stated gives a product with the stored popularity 0 the score
  \<open>0 + 20\<close>; the code scores it 70, since \<open>0 or 50\<close> is 50.
\<close>

theorem zero_popularity_fallback_score:
  "recommend None [plain_pizza] ''pizza under $5'' 5 = Fallback [\<lparr>product = plain_pizza, score = 70\<rparr>]
   \<and> map recommendation_score
        (get_personalized_recommendations None [plain_pizza] ''pizza under $5'' 5) = [70]
   \<and> popularity_score plain_pizza = Some 0
   \<and> (70 :: real) \<noteq> of_int 0 + 20"
  by code_simp

end
